theory Spec2Isabelle
  imports Main "HOL-Library.Word" "HOL-Library.Multiset"
begin

section \<open>JavaScript strings and the regular expressions of the component\<close>

text \<open>
  A JavaScript string is a sequence of UTF-16 code units. The component only ever
  filters strings, tests them against a character class and concatenates them, so a
  list of 16-bit words is the whole model. \<open>str\<close> writes an ASCII literal.
\<close>

type_synonym char16 = "16 word"
type_synonym jsstring = "char16 list"

definition str :: "string \<Rightarrow> jsstring" where
  "str s = map of_char s"

text \<open>The class \<^verbatim>\<open>[0-9]\<close>.\<close>

definition isDigit :: "char16 \<Rightarrow> bool" where
  "isDigit c = (0x30 \<le> c \<and> c \<le> 0x39)"

text \<open>
  The class \<^verbatim>\<open>\s\<close> of ECMAScript: the WhiteSpace and LineTerminator code points
  (TAB, LF, VT, FF, CR, SPACE, NBSP, OGHAM SPACE MARK, U+2000 to U+200A, LS, PS,
  NARROW NBSP, MEDIUM MATHEMATICAL SPACE, IDEOGRAPHIC SPACE, BOM).
\<close>

definition isWhiteSpace :: "char16 \<Rightarrow> bool" where
  "isWhiteSpace c =
     ((0x09 \<le> c \<and> c \<le> 0x0D) \<or> c = 0x20 \<or> c = 0xA0 \<or> c = 0x1680 \<or>
      (0x2000 \<le> c \<and> c \<le> 0x200A) \<or> c = 0x2028 \<or> c = 0x2029 \<or> c = 0x202F \<or>
      c = 0x205F \<or> c = 0x3000 \<or> c = 0xFEFF)"

definition plusSign :: char16 where
  "plusSign = 0x2B"

text \<open>\<^verbatim>\<open>text.replace(/[^0-9+]/g, '')\<close>\<close>

definition keepDigitsAndPlus :: "jsstring \<Rightarrow> jsstring" where
  "keepDigitsAndPlus text = filter (\<lambda>c. isDigit c \<or> c = plusSign) text"

text \<open>\<^verbatim>\<open>text.replace(/[^0-9]/g, '')\<close>\<close>

definition keepDigits :: "jsstring \<Rightarrow> jsstring" where
  "keepDigits text = filter isDigit text"

text \<open>
  \<^verbatim>\<open>/^[0-9\s\-()]*$/.test(text)\<close>: without the multiline flag the anchors are the
  two ends of the string, so the test holds exactly when every code unit is in the class.
\<close>

definition strictChar :: "char16 \<Rightarrow> bool" where
  "strictChar c = (isDigit c \<or> isWhiteSpace c \<or> c = 0x2D \<or> c = 0x28 \<or> c = 0x29)"

definition strictCharCheck :: "jsstring \<Rightarrow> bool" where
  "strictCharCheck text = list_all strictChar text"

text \<open>\<^verbatim>\<open>xs.includes(x)\<close> and \<^verbatim>\<open>xs.indexOf(x)\<close> (\<open>-1\<close> when absent).\<close>

definition arrayIncludes :: "'a list \<Rightarrow> 'a \<Rightarrow> bool" where
  "arrayIncludes xs x = (x \<in> set xs)"

fun indexOf :: "'a list \<Rightarrow> 'a \<Rightarrow> int" where
  "indexOf [] x = - 1"
| "indexOf (y # ys) x =
     (if y = x then 0 else (let i = indexOf ys x in if i < 0 then - 1 else i + 1))"

text \<open>\<^verbatim>\<open>xs[0]\<close>: \<open>undefined\<close> on an empty array.\<close>

definition first :: "'a list \<Rightarrow> 'a option" where
  "first xs = (case xs of [] \<Rightarrow> None | x # _ \<Rightarrow> Some x)"


section \<open>The country directory\<close>

text \<open>
  Modelled from the spec: the type \<^verbatim>\<open>Country\<close> and the table \<^verbatim>\<open>countryList\<close> of
  \<^verbatim>\<open>data/countryList\<close>, which the component imports. A record has the fields the
  component reads (ISO2 code, calling code as a numeric string, display name); the flag
  asset is looked up in a separate table and plays no part here. The table itself is a
  parameter \<open>countryList\<close> of every definition that reads it.
\<close>

record Country =
  iso2 :: jsstring
  callingCode :: jsstring
  name :: jsstring

text \<open>
  \<^verbatim>\<open>finalCountryList\<close>. An optional array prop is \<open>None\<close> when it is not passed;
  the guard \<^verbatim>\<open>xs && xs.length > 0\<close> holds for a passed, non-empty array.
  \<^verbatim>\<open>Array.prototype.sort\<close> is stable, and its comparator is the difference of two
  \<open>indexOf\<close> positions: a stable sort on that key, which \<open>sort_key\<close> is.
\<close>

definition finalCountryList ::
  "Country list \<Rightarrow> jsstring list option \<Rightarrow> jsstring list option \<Rightarrow> jsstring list option
     \<Rightarrow> Country list" where
  "finalCountryList countryList allowedCountries excludedCountries preferredCountries =
     (let list0 = countryList;
          list1 = (case allowedCountries of
                     None \<Rightarrow> list0
                   | Some allowed \<Rightarrow>
                       if allowed \<noteq> []
                       then filter (\<lambda>c. arrayIncludes allowed (iso2 c)) list0
                       else list0);
          list2 = (case excludedCountries of
                     None \<Rightarrow> list1
                   | Some excluded \<Rightarrow>
                       if excluded \<noteq> []
                       then filter (\<lambda>c. \<not> arrayIncludes excluded (iso2 c)) list1
                       else list1)
      in case preferredCountries of
           None \<Rightarrow> list2
         | Some pref \<Rightarrow>
             if pref \<noteq> []
             then (let preferred = filter (\<lambda>c. arrayIncludes pref (iso2 c)) list2;
                       others = filter (\<lambda>c. \<not> arrayIncludes pref (iso2 c)) list2
                   in sort_key (\<lambda>c. indexOf pref (iso2 c)) preferred @ others)
             else list2)"

text \<open>
  The initial value of \<^verbatim>\<open>selectedCountry\<close>:
  \<^verbatim>\<open>finalCountryList.find(c => c.iso2 === defaultCountry) || finalCountryList[0] || countryList[0]\<close>.
  The prop \<^verbatim>\<open>defaultCountry\<close> defaults to \<^verbatim>\<open>'TR'\<close>. \<open>None\<close> is \<open>undefined\<close>.
\<close>

definition defaultCountryOr :: "jsstring option \<Rightarrow> jsstring" where
  "defaultCountryOr d = (case d of None \<Rightarrow> str ''TR'' | Some c \<Rightarrow> c)"

definition initialSelectedCountry ::
  "Country list \<Rightarrow> Country list \<Rightarrow> jsstring option \<Rightarrow> Country option" where
  "initialSelectedCountry countryList finalList defaultCountry =
     (case List.find (\<lambda>c. iso2 c = defaultCountryOr defaultCountry) finalList of
        Some c \<Rightarrow> Some c
      | None \<Rightarrow> (case first finalList of
                   Some c \<Rightarrow> Some c
                 | None \<Rightarrow> first countryList))"

text \<open>
  The list that \<open>finalCountryList\<close> is compared with, written from the
  specification's words: the preferred entries in the order of the preference list, each code taking
  its entries in directory order, then the rest in directory order.
\<close>

fun preferredFirst :: "jsstring list \<Rightarrow> Country list \<Rightarrow> Country list" where
  "preferredFirst [] l = []"
| "preferredFirst (p # ps) l =
     filter (\<lambda>c. iso2 c = p) l @ preferredFirst ps (filter (\<lambda>c. iso2 c \<noteq> p) l)"

definition filteredCountryListSpec ::
  "Country list \<Rightarrow> jsstring list option \<Rightarrow> jsstring list option \<Rightarrow> jsstring list option
     \<Rightarrow> Country list" where
  "filteredCountryListSpec directory allowed excluded preferred =
     (let l1 = (case allowed of None \<Rightarrow> directory
                | Some a \<Rightarrow> filter (\<lambda>c. iso2 c \<in> set a) directory);
          l2 = (case excluded of None \<Rightarrow> l1
                | Some e \<Rightarrow> filter (\<lambda>c. iso2 c \<notin> set e) l1)
      in case preferred of None \<Rightarrow> l2
         | Some p \<Rightarrow> preferredFirst p l2 @ filter (\<lambda>c. iso2 c \<notin> set p) l2)"


section \<open>The phone number library\<close>

text \<open>
  \<^verbatim>\<open>libphonenumber-js\<close> is a dependency, not code of the repository: it is a parameter
  of every definition that calls it. A \<^verbatim>\<open>PhoneNumber\<close> object is modelled by what the
  component reads from it. \<^verbatim>\<open>parsePhoneNumber\<close> may throw, return nothing or return
  a number, and the component handles all three. The component always feeds one string
  to a fresh \<^verbatim>\<open>AsYouType\<close>, so \<^verbatim>\<open>input\<close> and the following \<^verbatim>\<open>getNumber\<close> are
  functions of the country and that string. The library declares them, and the methods
  of a number, as returning a value; only \<^verbatim>\<open>parsePhoneNumber\<close> has a throwing outcome.
\<close>

record PhoneNumber =
  country :: "jsstring option"
  valid :: bool
  formatE164 :: jsstring
  formatNational :: jsstring

datatype ParseOutcome = Throws | Undefined | Parsed PhoneNumber

record PhoneLib =
  parsePhoneNumber :: "jsstring \<Rightarrow> jsstring option \<Rightarrow> ParseOutcome"
  asYouTypeInput :: "jsstring \<Rightarrow> jsstring \<Rightarrow> jsstring"
  asYouTypeGetNumber :: "jsstring \<Rightarrow> jsstring \<Rightarrow> PhoneNumber option"


section \<open>The component's state and handlers\<close>

text \<open>
  The four \<^verbatim>\<open>useState\<close> cells, the ref \<^verbatim>\<open>isInternalChange\<close>, and the callbacks that
  \<^verbatim>\<open>setTimeout(..., 0)\<close> has queued, each with the country and digits its closure holds.
  A handler returns the state after its updates and the calls of \<^verbatim>\<open>onChange\<close> it made,
  in order. \<^verbatim>\<open>internalNationalRef\<close> is assigned \<^verbatim>\<open>internalNational\<close> at every render,
  so between events the two agree and the ref needs no cell of its own.
\<close>

record State =
  isOpen :: bool
  internalNational :: jsstring
  selectedCountry :: Country
  searchQuery :: jsstring
  isInternalChange :: bool
  timeouts :: "(Country \<times> jsstring) list"

type_synonym OnChangeCall = "jsstring \<times> jsstring"

definition bestEffort :: "Country \<Rightarrow> jsstring \<Rightarrow> jsstring" where
  "bestEffort c digits = plusSign # callingCode c @ digits"

definition emitChange ::
  "PhoneLib \<Rightarrow> jsstring \<Rightarrow> Country \<Rightarrow> State \<Rightarrow> State \<times> OnChangeCall list" where
  "emitChange lib text c st =
     (let st1 = st\<lparr>isInternalChange := True\<rparr>;
          cleanInput = keepDigitsAndPlus text;
          number = asYouTypeGetNumber lib (iso2 c) cleanInput
      in case number of
           Some n \<Rightarrow>
             if valid n then (st1, [(formatE164 n, iso2 c)])
             else (st1, [(bestEffort c (keepDigits cleanInput), iso2 c)])
         | None \<Rightarrow> (st1, [(bestEffort c (keepDigits cleanInput), iso2 c)]))"

definition handleTextChange ::
  "PhoneLib \<Rightarrow> jsstring \<Rightarrow> State \<Rightarrow> State \<times> OnChangeCall list" where
  "handleTextChange lib text st =
     (if \<not> strictCharCheck text then (st, [])
      else (let formatted = asYouTypeInput lib (iso2 (selectedCountry st)) text
            in emitChange lib text (selectedCountry st) (st\<lparr>internalNational := formatted\<rparr>)))"

text \<open>The callback that \<^verbatim>\<open>handleSelectCountry\<close> hands to \<^verbatim>\<open>setTimeout\<close>.\<close>

definition deferredEmit :: "PhoneLib \<Rightarrow> Country \<times> jsstring \<Rightarrow> OnChangeCall" where
  "deferredEmit lib t =
     (case t of (c, rawDigits) \<Rightarrow>
        (case asYouTypeGetNumber lib (iso2 c) rawDigits of
           Some n \<Rightarrow> if valid n then (formatE164 n, iso2 c) else (bestEffort c rawDigits, iso2 c)
         | None \<Rightarrow> (bestEffort c rawDigits, iso2 c)))"

definition handleSelectCountry ::
  "PhoneLib \<Rightarrow> Country \<Rightarrow> State \<Rightarrow> State \<times> OnChangeCall list" where
  "handleSelectCountry lib c st =
     (let rawDigits = keepDigits (internalNational st);
          formatted = asYouTypeInput lib (iso2 c) rawDigits
      in (st\<lparr>selectedCountry := c, isOpen := False, searchQuery := [],
             internalNational := formatted,
             timeouts := timeouts st @ [(c, rawDigits)]\<rparr>, []))"

text \<open>One turn of the timer queue: the oldest queued callback runs.\<close>

definition runTimeout :: "PhoneLib \<Rightarrow> State \<Rightarrow> State \<times> OnChangeCall list" where
  "runTimeout lib st =
     (case timeouts st of
        [] \<Rightarrow> (st, [])
      | t # ts \<Rightarrow> (st\<lparr>timeouts := ts\<rparr>, [deferredEmit lib t]))"

text \<open>The ref methods \<^verbatim>\<open>setCountry\<close>, \<^verbatim>\<open>getCountry\<close> and \<^verbatim>\<open>isValid\<close>.\<close>

definition setCountry ::
  "PhoneLib \<Rightarrow> Country list \<Rightarrow> jsstring \<Rightarrow> State \<Rightarrow> State \<times> OnChangeCall list" where
  "setCountry lib finalList code st =
     (case List.find (\<lambda>c. iso2 c = code) finalList of
        Some c \<Rightarrow> handleSelectCountry lib c st
      | None \<Rightarrow> (st, []))"

definition getCountry :: "State \<Rightarrow> Country" where
  "getCountry st = selectedCountry st"

definition isValid :: "PhoneLib \<Rightarrow> State \<Rightarrow> bool" where
  "isValid lib st =
     (let fullNumber = plusSign # callingCode (selectedCountry st) @ internalNational st
      in case parsePhoneNumber lib fullNumber (Some (iso2 (selectedCountry st))) of
           Parsed n \<Rightarrow> valid n
         | Undefined \<Rightarrow> False
         | Throws \<Rightarrow> False)"

text \<open>
  The effect \<^verbatim>\<open>// Sync prop value\<close>, run when the prop \<^verbatim>\<open>value\<close> changes. A throw of
  the first parse is caught by the outer \<^verbatim>\<open>catch\<close>; a throw of the second parse by the
  inner one, which leaves \<^verbatim>\<open>parsed\<close> as the first parse set it. \<^verbatim>\<open>parsed.country\<close> is
  truthy when it is a non-empty string; \<^verbatim>\<open>x || value\<close> takes \<^verbatim>\<open>value\<close> when the
  formatter has no number or an empty format.
\<close>

definition returned :: "ParseOutcome \<Rightarrow> PhoneNumber option" where
  "returned r = (case r of Parsed n \<Rightarrow> Some n | Undefined \<Rightarrow> None | Throws \<Rightarrow> None)"

definition truthyCountry :: "PhoneNumber option \<Rightarrow> jsstring option" where
  "truthyCountry parsed =
     (case parsed of
        None \<Rightarrow> None
      | Some n \<Rightarrow> (case country n of None \<Rightarrow> None
                   | Some pc \<Rightarrow> if pc = [] then None else Some pc))"

definition syncPropValue :: "PhoneLib \<Rightarrow> Country list \<Rightarrow> jsstring \<Rightarrow> State \<Rightarrow> State" where
  "syncPropValue lib finalList v st =
     (if isInternalChange st then st\<lparr>isInternalChange := False\<rparr>
      else if v = [] then st\<lparr>internalNational := []\<rparr>
      else
        (case parsePhoneNumber lib v (Some (iso2 (selectedCountry st))) of
           Throws \<Rightarrow> st\<lparr>internalNational := v\<rparr>
         | r1 \<Rightarrow>
            (let parsed1 = returned r1;
                 parsed =
                   (if (case parsed1 of None \<Rightarrow> True | Some n \<Rightarrow> \<not> valid n)
                    then (case parsePhoneNumber lib v None of
                            Throws \<Rightarrow> parsed1
                          | r2 \<Rightarrow> returned r2)
                    else parsed1)
             in case truthyCountry parsed of
                  Some pc \<Rightarrow>
                    (let st1 =
                           (if pc \<noteq> iso2 (selectedCountry st)
                            then (case List.find (\<lambda>c. iso2 c = pc) finalList of
                                    Some newCountry \<Rightarrow> st\<lparr>selectedCountry := newCountry\<rparr>
                                  | None \<Rightarrow> st)
                            else st);
                         formatted =
                           (case asYouTypeGetNumber lib pc v of
                              Some n \<Rightarrow> if formatNational n = [] then v else formatNational n
                            | None \<Rightarrow> v)
                     in st1\<lparr>internalNational := formatted\<rparr>)
                | None \<Rightarrow> st\<lparr>internalNational := v\<rparr>)))"

text \<open>The handlers of the picker: the flag button, the overlay, the keyboard and the search field.\<close>

definition toggleDropdown :: "bool \<Rightarrow> State \<Rightarrow> State" where
  "toggleDropdown disabled st = (if disabled then st else st\<lparr>isOpen := \<not> isOpen st\<rparr>)"

definition closeDropdown :: "State \<Rightarrow> State" where
  "closeDropdown st = st\<lparr>isOpen := False\<rparr>"

definition keyboardHide :: "State \<Rightarrow> State" where
  "keyboardHide st = st\<lparr>isOpen := False\<rparr>"

definition setSearchQuery :: "jsstring \<Rightarrow> State \<Rightarrow> State" where
  "setSearchQuery q st = st\<lparr>searchQuery := q\<rparr>"

text \<open>
  Mounting: the initial cells. With no country to select the first render reads a field
  of \<open>undefined\<close> and throws, which is \<open>None\<close> here.
\<close>

definition initialState :: "Country \<Rightarrow> State" where
  "initialState c =
     \<lparr>isOpen = False, internalNational = [], selectedCountry = c,
      searchQuery = [], isInternalChange = False, timeouts = []\<rparr>"

definition mount ::
  "Country list \<Rightarrow> Country list \<Rightarrow> jsstring option \<Rightarrow> State option" where
  "mount countryList finalList defaultCountry =
     (case initialSelectedCountry countryList finalList defaultCountry of
        None \<Rightarrow> None
      | Some c \<Rightarrow> Some (initialState c))"


section \<open>The specification's reading of the reconciliation and of the input filter\<close>

text \<open>
  Steps 4 and 5 of the reconciliation, written from the specification's words: switch
  to the directory entry of the inferred country when it differs from the selection and
  the filtered list has it; show the formatter's national format of the value.
\<close>

definition switchCountry :: "Country list \<Rightarrow> jsstring \<Rightarrow> State \<Rightarrow> State" where
  "switchCountry finalList pc st =
     (if pc = iso2 (selectedCountry st) then st
      else (case List.find (\<lambda>c. iso2 c = pc) finalList of
              None \<Rightarrow> st
            | Some c \<Rightarrow> st\<lparr>selectedCountry := c\<rparr>))"

definition nationalDisplay :: "PhoneLib \<Rightarrow> jsstring \<Rightarrow> jsstring \<Rightarrow> jsstring" where
  "nationalDisplay lib pc v =
     (case asYouTypeGetNumber lib pc v of
        None \<Rightarrow> v
      | Some n \<Rightarrow> if formatNational n = [] then v else formatNational n)"

definition reconcileWith ::
  "PhoneLib \<Rightarrow> Country list \<Rightarrow> jsstring \<Rightarrow> PhoneNumber option \<Rightarrow> State \<Rightarrow> State" where
  "reconcileWith lib finalList v parsed st =
     (case truthyCountry parsed of
        None \<Rightarrow> st\<lparr>internalNational := v\<rparr>
      | Some pc \<Rightarrow> (switchCountry finalList pc st)\<lparr>internalNational := nationalDisplay lib pc v\<rparr>)"

text \<open>
  The characters the specification's input filter names: digits, the space, the hyphen
  and the two parentheses. Letters of the Latin alphabet, for the filter's test case.
\<close>

definition specAllowedChar :: "char16 \<Rightarrow> bool" where
  "specAllowedChar c = (isDigit c \<or> c = 0x20 \<or> c = 0x2D \<or> c = 0x28 \<or> c = 0x29)"

definition isLetter :: "char16 \<Rightarrow> bool" where
  "isLetter c = ((0x41 \<le> c \<and> c \<le> 0x5A) \<or> (0x61 \<le> c \<and> c \<le> 0x7A))"


section \<open>Example data: a small directory and a stand-in for the library\<close>

text \<open>
  Five entries in directory order. The first is a territory that country lists carry and
  the library's metadata does not.
\<close>

definition countryAQ :: Country where
  "countryAQ = \<lparr>iso2 = str ''AQ'', callingCode = str ''672'', name = str ''Antarctica''\<rparr>"

definition countryCA :: Country where
  "countryCA = \<lparr>iso2 = str ''CA'', callingCode = str ''1'', name = str ''Canada''\<rparr>"

definition countryDE :: Country where
  "countryDE = \<lparr>iso2 = str ''DE'', callingCode = str ''49'', name = str ''Germany''\<rparr>"

definition countryTR :: Country where
  "countryTR = \<lparr>iso2 = str ''TR'', callingCode = str ''90'', name = str ''Turkey''\<rparr>"

definition countryUS :: Country where
  "countryUS = \<lparr>iso2 = str ''US'', callingCode = str ''1'', name = str ''United States''\<rparr>"

definition exampleDirectory :: "Country list" where
  "exampleDirectory = [countryAQ, countryCA, countryDE, countryTR, countryUS]"

text \<open>
  A stand-in for the library with the shape of its behaviour on two countries: it knows
  \<open>US\<close> and \<open>TR\<close>, takes ten national digits for a valid number, reads the country of
  a value that starts with \<open>+\<close> from its leading digits (\<open>+800\<close> is a number with
  no country), and throws on an unknown default country, on a value it cannot place and
  on fewer than two national digits. It formats ten \<open>US\<close> digits as \<open>(XXX) XXX-XXXX\<close>.
  It instantiates the theorems at concrete inputs and is no part of the component.
\<close>

definition stubKnows :: "jsstring \<Rightarrow> bool" where
  "stubKnows c = (c = str ''US'' \<or> c = str ''TR'')"

definition stubCallingCode :: "jsstring option \<Rightarrow> jsstring" where
  "stubCallingCode co =
     (case co of
        None \<Rightarrow> str ''800''
      | Some c \<Rightarrow> if c = str ''US'' then str ''1'' else if c = str ''TR'' then str ''90'' else [])"

definition stubFormat :: "jsstring option \<Rightarrow> jsstring \<Rightarrow> jsstring" where
  "stubFormat co n =
     (if co = Some (str ''US'') \<and> length n = 10
      then str ''('' @ take 3 n @ str '') '' @ take 3 (drop 3 n) @ str ''-'' @ drop 6 n
      else n)"

definition stubNumber :: "jsstring option \<Rightarrow> jsstring \<Rightarrow> PhoneNumber" where
  "stubNumber co n =
     \<lparr>country = co,
      valid = (case co of None \<Rightarrow> length n = 8 | Some c \<Rightarrow> length n = 10),
      formatE164 = plusSign # stubCallingCode co @ n,
      formatNational = stubFormat co n\<rparr>"

definition stubSplit :: "jsstring \<Rightarrow> (jsstring option \<times> jsstring) option" where
  "stubSplit d =
     (if take 1 d = str ''1'' then Some (Some (str ''US''), drop 1 d)
      else if take 2 d = str ''90'' then Some (Some (str ''TR''), drop 2 d)
      else if take 3 d = str ''800'' then Some (None, drop 3 d)
      else None)"

definition stubRead :: "jsstring option \<Rightarrow> jsstring \<Rightarrow> (jsstring option \<times> jsstring) option" where
  "stubRead dc text =
     (if take 1 text = [plusSign] then stubSplit (keepDigits text)
      else (case dc of
              None \<Rightarrow> None
            | Some c \<Rightarrow> if stubKnows c then Some (Some c, keepDigits text) else None))"

definition stubParse :: "jsstring \<Rightarrow> jsstring option \<Rightarrow> ParseOutcome" where
  "stubParse text dc =
     (if (case dc of None \<Rightarrow> False | Some c \<Rightarrow> \<not> stubKnows c) then Throws
      else (case stubRead dc text of
              None \<Rightarrow> Throws
            | Some (co, n) \<Rightarrow> if length n < 2 then Throws else Parsed (stubNumber co n)))"

definition stubInput :: "jsstring \<Rightarrow> jsstring \<Rightarrow> jsstring" where
  "stubInput c text =
     (case stubRead (Some c) text of
        None \<Rightarrow> keepDigitsAndPlus text
      | Some (co, n) \<Rightarrow> stubFormat co n)"

definition stubGetNumber :: "jsstring \<Rightarrow> jsstring \<Rightarrow> PhoneNumber option" where
  "stubGetNumber c text =
     (case stubRead (Some c) text of
        None \<Rightarrow> None
      | Some (co, n) \<Rightarrow> if n = [] then None else Some (stubNumber co n))"

definition stubLib :: PhoneLib where
  "stubLib =
     \<lparr>parsePhoneNumber = stubParse, asYouTypeInput = stubInput,
      asYouTypeGetNumber = stubGetNumber\<rparr>"

definition exampleState :: "Country \<Rightarrow> jsstring \<Rightarrow> State" where
  "exampleState c shown = (initialState c)\<lparr>internalNational := shown\<rparr>"


section \<open>The filtered country list\<close>

lemmas example_defs =
  exampleDirectory_def countryCA_def countryDE_def countryTR_def countryUS_def countryAQ_def str_def

lemmas stub_defs =
  stubLib_def stubParse_def stubRead_def stubSplit_def stubNumber_def stubFormat_def
  stubCallingCode_def stubKnows_def stubInput_def stubGetNumber_def
  keepDigits_def keepDigitsAndPlus_def isDigit_def plusSign_def

lemma indexOf_nonneg_iff: "0 \<le> indexOf xs x \<longleftrightarrow> x \<in> set xs"
  by (induction xs) (auto simp: Let_def)

lemma indexOf_absent: "x \<notin> set xs \<Longrightarrow> indexOf xs x = - 1"
  by (induction xs) (auto simp: Let_def)

lemma indexOf_Cons_other: "y \<noteq> x \<Longrightarrow> x \<in> set ys \<Longrightarrow> indexOf (y # ys) x = indexOf ys x + 1"
  using indexOf_nonneg_iff[of ys x] by (simp add: Let_def)

lemma insort_key_append_less:
  "\<forall>a\<in>set A. f a < f x \<Longrightarrow> insort_key f x (A @ B) = A @ insort_key f x B"
  by (induction A) auto

lemma sort_key_split_min:
  fixes f :: "'a \<Rightarrow> int"
  assumes "\<forall>y\<in>set xs. 0 \<le> f y"
  shows "sort_key f xs = filter (\<lambda>x. f x = 0) xs @ sort_key f (filter (\<lambda>x. f x \<noteq> 0) xs)"
  using assms
proof (induction xs)
  case Nil
  then show ?case by simp
next
  case (Cons x xs)
  let ?Z = "filter (\<lambda>x. f x = 0) xs" and ?S = "sort_key f (filter (\<lambda>x. f x \<noteq> 0) xs)"
  have IH: "sort_key f xs = ?Z @ ?S" using Cons by simp
  show ?case
  proof (cases "f x = 0")
    case True
    have "\<forall>a\<in>set (sort_key f xs). f x \<le> f a" using Cons.prems True by simp
    then have "insort_key f x (sort_key f xs) = x # sort_key f xs" by (rule insort_is_Cons)
    with True IH show ?thesis by simp
  next
    case False
    then have "0 < f x" using Cons.prems by (simp add: order_less_le)
    then have "\<forall>a\<in>set ?Z. f a < f x" by simp
    then have "insort_key f x (?Z @ ?S) = ?Z @ insort_key f x ?S" by (rule insort_key_append_less)
    with False IH show ?thesis by simp
  qed
qed

lemma insort_key_cong_order:
  assumes "\<forall>y\<in>set xs. (f x \<le> f y) = (g x \<le> g y)"
  shows "insort_key f x xs = insort_key g x xs"
  using assms by (induction xs) auto

lemma sort_key_cong_order:
  assumes "\<forall>x\<in>set xs. \<forall>y\<in>set xs. (f x \<le> f y) = (g x \<le> g y)"
  shows "sort_key f xs = sort_key g xs"
  using assms
proof (induction xs)
  case Nil
  then show ?case by simp
next
  case (Cons x xs)
  then have IH: "sort_key f xs = sort_key g xs" by simp
  have "\<forall>y\<in>set (sort_key g xs). (f x \<le> f y) = (g x \<le> g y)" using Cons.prems by simp
  then have "insort_key f x (sort_key g xs) = insort_key g x (sort_key g xs)"
    by (rule insort_key_cong_order)
  with IH show ?case by simp
qed

lemma sort_by_indexOf:
  "sort_key (\<lambda>c. indexOf p (iso2 c)) (filter (\<lambda>c. iso2 c \<in> set p) l) = preferredFirst p l"
proof (induction p arbitrary: l)
  case Nil
  then show ?case by simp
next
  case (Cons q qs)
  let ?f = "\<lambda>c. indexOf (q # qs) (iso2 c)"
  let ?xs = "filter (\<lambda>c. iso2 c \<in> set (q # qs)) l"
  have nonneg: "\<forall>y\<in>set ?xs. 0 \<le> ?f y"
    using indexOf_nonneg_iff[of "q # qs"] by auto
  have zero: "\<And>c. (?f c = 0) = (iso2 c = q)"
    by (auto simp: Let_def)
  have split: "sort_key ?f ?xs = filter (\<lambda>c. ?f c = 0) ?xs @ sort_key ?f (filter (\<lambda>c. ?f c \<noteq> 0) ?xs)"
    using nonneg by (rule sort_key_split_min)
  have front: "filter (\<lambda>c. ?f c = 0) ?xs = filter (\<lambda>c. iso2 c = q) l"
    unfolding zero by (induction l) auto
  have rest: "filter (\<lambda>c. ?f c \<noteq> 0) ?xs = filter (\<lambda>c. iso2 c \<in> set qs) (filter (\<lambda>c. iso2 c \<noteq> q) l)"
    unfolding zero by (induction l) auto
  let ?ys = "filter (\<lambda>c. iso2 c \<in> set qs) (filter (\<lambda>c. iso2 c \<noteq> q) l)"
  have "\<forall>x\<in>set ?ys. \<forall>y\<in>set ?ys. (?f x \<le> ?f y) = (indexOf qs (iso2 x) \<le> indexOf qs (iso2 y))"
    using indexOf_Cons_other[of q _ qs] by auto
  then have "sort_key ?f ?ys = sort_key (\<lambda>c. indexOf qs (iso2 c)) ?ys"
    by (rule sort_key_cong_order)
  also have "\<dots> = preferredFirst qs (filter (\<lambda>c. iso2 c \<noteq> q) l)"
    by (rule Cons.IH)
  finally show ?case using split front rest by simp
qed

lemma mset_sort_partition:
  "mset (sort_key f (filter P l) @ filter (\<lambda>c. \<not> P c) l) = mset l"
  by simp

lemma distinct_iso2_final:
  assumes "distinct (map iso2 l)"
  shows "distinct (map iso2 (sort_key f (filter P l) @ filter (\<lambda>c. \<not> P c) l))"
proof -
  have "mset (map iso2 (sort_key f (filter P l) @ filter (\<lambda>c. \<not> P c) l)) = mset (map iso2 l)"
    using mset_sort_partition[of f P l] by (metis mset_map)
  then show ?thesis using assms by (metis mset_eq_imp_distinct_iff)
qed

lemma finalCountryList_unfold:
  "finalCountryList dir a e p =
     (let l1 = (case a of None \<Rightarrow> dir | Some al \<Rightarrow> if al \<noteq> [] then filter (\<lambda>c. iso2 c \<in> set al) dir else dir);
          l2 = (case e of None \<Rightarrow> l1 | Some ex \<Rightarrow> filter (\<lambda>c. iso2 c \<notin> set ex) l1)
      in case p of None \<Rightarrow> l2
         | Some pr \<Rightarrow> sort_key (\<lambda>c. indexOf pr (iso2 c)) (filter (\<lambda>c. iso2 c \<in> set pr) l2)
                      @ filter (\<lambda>c. iso2 c \<notin> set pr) l2)"
  by (simp add: finalCountryList_def arrayIncludes_def Let_def split: option.splits)

lemma distinct_iso2_allowed:
  "distinct (map iso2 dir) \<Longrightarrow>
   distinct (map iso2 (case a of None \<Rightarrow> dir
                       | Some al \<Rightarrow> if al \<noteq> [] then filter (\<lambda>c. iso2 c \<in> set al) dir else dir))"
  by (simp add: distinct_map_filter split: option.splits)

lemma distinct_iso2_excluded:
  "distinct (map iso2 l1) \<Longrightarrow>
   distinct (map iso2 (case e of None \<Rightarrow> l1 | Some ex \<Rightarrow> filter (\<lambda>c. iso2 c \<notin> set ex) l1))"
  by (simp add: distinct_map_filter split: option.splits)

lemma distinct_iso2_preferred:
  "distinct (map iso2 l2) \<Longrightarrow>
   distinct (map iso2 (case p of None \<Rightarrow> l2
      | Some pr \<Rightarrow> sort_key (\<lambda>c. indexOf pr (iso2 c)) (filter (\<lambda>c. iso2 c \<in> set pr) l2)
                   @ filter (\<lambda>c. iso2 c \<notin> set pr) l2))"
  using distinct_iso2_final[of l2] by (cases p) simp_all

lemma distinct_iso2_finalCountryList:
  "distinct (map iso2 dir) \<Longrightarrow> distinct (map iso2 (finalCountryList dir a e p))"
  unfolding finalCountryList_unfold Let_def
  by (intro distinct_iso2_preferred distinct_iso2_excluded distinct_iso2_allowed)

text \<open>
  Claim C6, as the code has it. For every directory and every combination of the three
  optional props, \<open>finalCountryList\<close> is the list the specification describes, with one
  difference: an \<open>allowedCountries\<close> that is passed but empty filters nothing, as if it were
  not passed. The directory is filtered to the allowed codes, the excluded codes are
  removed, the preferred entries come first in the order of the preference list and the
  rest follows in directory order. A directory without duplicate ISO2 codes gives a list
  without duplicate ISO2 codes, and with no prop passed the list is the directory.
\<close>

theorem finalCountryList_refines_spec:
  "finalCountryList dir a e p = filteredCountryListSpec dir (if a = Some [] then None else a) e p
   \<and> (distinct (map iso2 dir) \<longrightarrow> distinct (map iso2 (finalCountryList dir a e p)))
   \<and> finalCountryList dir None None None = dir"
proof (intro conjI impI)
  show "finalCountryList dir a e p = filteredCountryListSpec dir (if a = Some [] then None else a) e p"
    by (simp add: finalCountryList_unfold filteredCountryListSpec_def sort_by_indexOf Let_def
        split: option.splits)
next
  assume "distinct (map iso2 dir)"
  then show "distinct (map iso2 (finalCountryList dir a e p))"
    by (rule distinct_iso2_finalCountryList)
next
  show "finalCountryList dir None None None = dir"
    by (simp add: finalCountryList_def)
qed

text \<open>
  The theorem at the example directory, with Canada excluded and the preference list
  \<open>US, DE\<close>: United States first, Germany second, the rest after them in directory order.
\<close>

theorem finalCountryList_refines_spec_witness:
  "distinct (map iso2 exampleDirectory)
   \<and> distinct (map iso2 (finalCountryList exampleDirectory None (Some [str ''CA'']) (Some [str ''US'', str ''DE''])))
   \<and> finalCountryList exampleDirectory None (Some [str ''CA'']) (Some [str ''US'', str ''DE''])
       = [countryUS, countryDE, countryAQ, countryTR]"
proof -
  have d: "distinct (map iso2 exampleDirectory)"
    by (simp add: example_defs)
  have e: "filteredCountryListSpec exampleDirectory None (Some [str ''CA'']) (Some [str ''US'', str ''DE''])
       = [countryUS, countryDE, countryAQ, countryTR]"
    by (simp add: filteredCountryListSpec_def example_defs)
  show ?thesis
    using d e finalCountryList_refines_spec[of exampleDirectory None "Some [str ''CA'']" "Some [str ''US'', str ''DE'']"]
    by (simp add: example_defs)
qed

text \<open>
  Claim C6 as it is written fails for an empty \<open>allowedCountries\<close>: filtering to no code
  at all would leave no entry, and the component leaves the whole directory.
\<close>

theorem finalCountryList_empty_allowed_counterexample:
  "finalCountryList exampleDirectory (Some []) None None
     \<noteq> filteredCountryListSpec exampleDirectory (Some []) None None"
  by (simp add: finalCountryList_def filteredCountryListSpec_def exampleDirectory_def)


subsection \<open>The initial country\<close>

text \<open>
  Claim C10. With a non-empty directory the component mounts, and its initial country is
  defined for every combination of the props: the first entry of the filtered list whose
  ISO2 code is \<open>defaultCountry\<close> (\<open>TR\<close> when the prop is not passed) if there is one,
  otherwise the first entry of the filtered list, otherwise, the filtered list being empty,
  the first entry of the directory. The props are arbitrary, so this holds as well when the
  default country has been excluded or is not among the allowed ones.
\<close>

theorem initialSelectedCountry_defined:
  assumes "countryList \<noteq> []"
  shows "\<exists>c. initialSelectedCountry countryList (finalCountryList countryList a e p) d = Some c
           \<and> mount countryList (finalCountryList countryList a e p) d = Some (initialState c)
           \<and> (case List.find (\<lambda>x. iso2 x = defaultCountryOr d) (finalCountryList countryList a e p) of
                 Some m \<Rightarrow> c = m
               | None \<Rightarrow> (case finalCountryList countryList a e p of
                            x # _ \<Rightarrow> c = x
                          | [] \<Rightarrow> first countryList = Some c))"
  using assms
  by (cases countryList)
     (auto simp: initialSelectedCountry_def mount_def first_def split: option.splits list.splits)

text \<open>
  At the example directory: with only \<open>US\<close> and \<open>CA\<close> allowed and the default \<open>TR\<close>
  the initial country is Canada, the first allowed entry; with every entry excluded and
  the default \<open>US\<close> it is the first entry of the directory.
\<close>

theorem initialSelectedCountry_defined_witness:
  "exampleDirectory \<noteq> []
   \<and> initialSelectedCountry exampleDirectory
         (finalCountryList exampleDirectory (Some [str ''US'', str ''CA'']) None None) None
       = Some countryCA
   \<and> initialSelectedCountry exampleDirectory
         (finalCountryList exampleDirectory None (Some (map iso2 exampleDirectory)) None) (Some (str ''US''))
       = Some countryAQ"
proof -
  have ne: "exampleDirectory \<noteq> []" by (simp add: exampleDirectory_def)
  have f1: "finalCountryList exampleDirectory (Some [str ''US'', str ''CA'']) None None = [countryCA, countryUS]"
    by (simp add: finalCountryList_def arrayIncludes_def example_defs)
  have f2: "finalCountryList exampleDirectory None (Some (map iso2 exampleDirectory)) None = []"
    by (simp add: finalCountryList_def arrayIncludes_def example_defs)
  have n1: "List.find (\<lambda>x. iso2 x = defaultCountryOr None) [countryCA, countryUS] = None"
    by (simp add: defaultCountryOr_def example_defs)
  have fst: "first exampleDirectory = Some countryAQ"
    by (simp add: first_def exampleDirectory_def)
  from initialSelectedCountry_defined[OF ne, of "Some [str ''US'', str ''CA'']" None None None]
  obtain c where c1: "initialSelectedCountry exampleDirectory
         (finalCountryList exampleDirectory (Some [str ''US'', str ''CA'']) None None) None = Some c"
    and c2: "(case List.find (\<lambda>x. iso2 x = defaultCountryOr None)
                  (finalCountryList exampleDirectory (Some [str ''US'', str ''CA'']) None None) of
                 Some m \<Rightarrow> c = m
               | None \<Rightarrow> (case finalCountryList exampleDirectory (Some [str ''US'', str ''CA'']) None None of
                            x # _ \<Rightarrow> c = x
                          | [] \<Rightarrow> first exampleDirectory = Some c))"
    by blast
  have "c = countryCA" using c2 unfolding f1 n1 by simp
  with c1 have r1: "initialSelectedCountry exampleDirectory
         (finalCountryList exampleDirectory (Some [str ''US'', str ''CA'']) None None) None = Some countryCA"
    by simp
  from initialSelectedCountry_defined[OF ne, of None "Some (map iso2 exampleDirectory)" None "Some (str ''US'')"]
  obtain c' where d1: "initialSelectedCountry exampleDirectory
         (finalCountryList exampleDirectory None (Some (map iso2 exampleDirectory)) None) (Some (str ''US'')) = Some c'"
    and d2: "(case List.find (\<lambda>x. iso2 x = defaultCountryOr (Some (str ''US'')))
                  (finalCountryList exampleDirectory None (Some (map iso2 exampleDirectory)) None) of
                 Some m \<Rightarrow> c' = m
               | None \<Rightarrow> (case finalCountryList exampleDirectory None (Some (map iso2 exampleDirectory)) None of
                            x # _ \<Rightarrow> c' = x
                          | [] \<Rightarrow> first exampleDirectory = Some c'))"
    by blast
  have "c' = countryAQ" using d2 unfolding f2 fst by simp
  with d1 have r2: "initialSelectedCountry exampleDirectory
         (finalCountryList exampleDirectory None (Some (map iso2 exampleDirectory)) None) (Some (str ''US'')) = Some countryAQ"
    by simp
  show ?thesis using ne r1 r2 by simp
qed


section \<open>Emission\<close>

lemma keepDigits_keepDigitsAndPlus: "keepDigits (keepDigitsAndPlus t) = keepDigits t"
  by (induction t) (simp_all add: keepDigits_def keepDigitsAndPlus_def)

text \<open>
  Claim C2. For every text, country and state, \<open>emitChange\<close> sets the guard and calls
  \<open>onChange\<close> exactly once, with a value and the ISO2 code of the country it was given.
  The value is the E.164 format of the formatter's number when the formatter has a number
  and reports it valid; otherwise it is \<open>+\<close>, the calling code and the digits of the
  text. \<open>emitChange\<close> has no failing branch: the formatter finding no number or an invalid
  one is the second case. A keystroke that passes the filter emits in this way for the
  selected country.
\<close>

theorem emitChange_one_call:
  "\<exists>v. emitChange lib text c st = (st\<lparr>isInternalChange := True\<rparr>, [(v, iso2 c)])
     \<and> (\<forall>n. asYouTypeGetNumber lib (iso2 c) (keepDigitsAndPlus text) = Some n \<and> valid n
            \<longrightarrow> v = formatE164 n)
     \<and> ((\<forall>n. asYouTypeGetNumber lib (iso2 c) (keepDigitsAndPlus text) = Some n \<longrightarrow> \<not> valid n)
            \<longrightarrow> v = plusSign # callingCode c @ keepDigits text)
     \<and> (strictCharCheck text \<and> c = selectedCountry st \<longrightarrow>
            snd (handleTextChange lib text st) = [(v, iso2 (selectedCountry st))])"
  by (cases "asYouTypeGetNumber lib (iso2 c) (keepDigitsAndPlus text)")
     (auto simp: emitChange_def handleTextChange_def bestEffort_def keepDigits_keepDigitsAndPlus Let_def)

text \<open>
  With the stand-in library under \<open>US\<close>: a complete number is emitted in E.164 format,
  three digits are emitted behind the calling code.
\<close>

theorem emitChange_one_call_witness:
  "emitChange stubLib (str ''(202) 555-0123'') countryUS (initialState countryUS)
     = ((initialState countryUS)\<lparr>isInternalChange := True\<rparr>, [(str ''+12025550123'', str ''US'')])
   \<and> emitChange stubLib (str ''123'') countryUS (initialState countryUS)
     = ((initialState countryUS)\<lparr>isInternalChange := True\<rparr>, [(str ''+1123'', str ''US'')])"
proof -
  let ?n = "stubNumber (Some (str ''US'')) (str ''2025550123'')"
  have g1: "asYouTypeGetNumber stubLib (iso2 countryUS) (keepDigitsAndPlus (str ''(202) 555-0123'')) = Some ?n"
    by (simp add: stub_defs example_defs)
  have v1: "valid ?n" "formatE164 ?n = str ''+12025550123''"
    by (simp_all add: stub_defs example_defs)
  let ?m = "stubNumber (Some (str ''US'')) (str ''123'')"
  have g2: "asYouTypeGetNumber stubLib (iso2 countryUS) (keepDigitsAndPlus (str ''123'')) = Some ?m"
    by (simp add: stub_defs example_defs)
  have v2: "\<not> valid ?m"
    by (simp add: stub_defs example_defs)
  have k2: "plusSign # callingCode countryUS @ keepDigits (str ''123'') = str ''+1123''"
    by (simp add: stub_defs example_defs)
  have i: "iso2 countryUS = str ''US''" by (simp add: countryUS_def)
  from emitChange_one_call[of stubLib "str ''(202) 555-0123''" countryUS "initialState countryUS"]
  obtain v where e1: "emitChange stubLib (str ''(202) 555-0123'') countryUS (initialState countryUS)
        = ((initialState countryUS)\<lparr>isInternalChange := True\<rparr>, [(v, iso2 countryUS)])"
    and h1: "\<forall>n. asYouTypeGetNumber stubLib (iso2 countryUS) (keepDigitsAndPlus (str ''(202) 555-0123'')) = Some n \<and> valid n
            \<longrightarrow> v = formatE164 n"
    by blast
  from h1 g1 v1 have "v = str ''+12025550123''" by metis
  with e1 i have r1: "emitChange stubLib (str ''(202) 555-0123'') countryUS (initialState countryUS)
     = ((initialState countryUS)\<lparr>isInternalChange := True\<rparr>, [(str ''+12025550123'', str ''US'')])"
    by simp
  from emitChange_one_call[of stubLib "str ''123''" countryUS "initialState countryUS"]
  obtain w where e2: "emitChange stubLib (str ''123'') countryUS (initialState countryUS)
        = ((initialState countryUS)\<lparr>isInternalChange := True\<rparr>, [(w, iso2 countryUS)])"
    and h2: "(\<forall>n. asYouTypeGetNumber stubLib (iso2 countryUS) (keepDigitsAndPlus (str ''123'')) = Some n \<longrightarrow> \<not> valid n)
            \<longrightarrow> w = plusSign # callingCode countryUS @ keepDigits (str ''123'')"
    by blast
  from h2 g2 v2 have "w = plusSign # callingCode countryUS @ keepDigits (str ''123'')" by simp
  with e2 i k2 have r2: "emitChange stubLib (str ''123'') countryUS (initialState countryUS)
     = ((initialState countryUS)\<lparr>isInternalChange := True\<rparr>, [(str ''+1123'', str ''US'')])"
    by simp
  show ?thesis using r1 r2 by simp
qed


section \<open>The input filter\<close>

lemma isLetter_not_strictChar: "isLetter c \<Longrightarrow> \<not> strictChar c"
  unfolding isLetter_def strictChar_def isDigit_def isWhiteSpace_def
  by (auto simp: word_le_nat_alt)

text \<open>
  Claim C3, as the code has it. A typed text with a character outside the class of the
  filter (digits, the whitespace characters of \<^verbatim>\<open>\s\<close>, hyphen, parentheses) changes
  no state and calls \<open>onChange\<close> zero times; in particular every text with a letter.
\<close>

theorem handleTextChange_rejects:
  "((\<exists>c\<in>set text. \<not> strictChar c) \<longrightarrow> handleTextChange lib text st = (st, []))
   \<and> ((\<exists>c\<in>set text. isLetter c) \<longrightarrow> handleTextChange lib text st = (st, []))"
  using isLetter_not_strictChar
  by (auto simp: handleTextChange_def strictCharCheck_def list_all_iff)

text \<open>A text with a letter, typed while the field shows \<open>20\<close>, is dropped.\<close>

theorem handleTextChange_rejects_witness:
  "(\<exists>c\<in>set (str ''20a''). isLetter c)
   \<and> handleTextChange stubLib (str ''20a'') (exampleState countryUS (str ''20''))
       = (exampleState countryUS (str ''20''), [])"
proof -
  have l: "\<exists>c\<in>set (str ''20a''). isLetter c"
    by (simp add: str_def isLetter_def)
  with handleTextChange_rejects[of "str ''20a''" stubLib "exampleState countryUS (str ''20'')"]
  show ?thesis by blast
qed

text \<open>
  Claim C3 as it is written fails for a tab: it is none of digit, space, hyphen and
  parenthesis, yet the text \<open>1 TAB 2\<close> is accepted, the field shows \<open>12\<close>, the guard
  is set and \<open>onChange\<close> is called once.
\<close>

theorem handleTextChange_accepts_tab_counterexample:
  "\<not> specAllowedChar 0x09
   \<and> handleTextChange stubLib [0x31, 0x09, 0x32] (initialState countryUS)
       = ((initialState countryUS)\<lparr>internalNational := str ''12'', isInternalChange := True\<rparr>,
          [(str ''+112'', str ''US'')])"
  by (simp add: specAllowedChar_def handleTextChange_def strictCharCheck_def strictChar_def
      isWhiteSpace_def emitChange_def bestEffort_def initialState_def stub_defs example_defs)


section \<open>Country selection\<close>

text \<open>
  Claim C5. For every shown text and every chosen country, \<open>handleSelectCountry\<close> hands
  all digits of the old text, and nothing else, to the formatter of the new country, and
  the result is the new text; a formatter that keeps the digits it is given leaves the
  digit sequence as it was. The selected country, the closed picker and the empty search
  query are part of the state the handler returns, and the handler itself calls
  \<open>onChange\<close> zero times: it queues one callback with the new country and the digits.
  With nothing queued before, the next turn of the timer queue runs that callback, which
  calls \<open>onChange\<close> once for the new country, with the E.164 format of a valid number
  and with \<open>+\<close>, the calling code and the digits otherwise.
\<close>

theorem handleSelectCountry_carries_digits:
  assumes "handleSelectCountry lib c st = (st', calls)"
  shows "internalNational st' = asYouTypeInput lib (iso2 c) (keepDigits (internalNational st))
       \<and> (keepDigits (asYouTypeInput lib (iso2 c) (keepDigits (internalNational st)))
              = keepDigits (internalNational st)
            \<longrightarrow> keepDigits (internalNational st') = keepDigits (internalNational st))
       \<and> selectedCountry st' = c \<and> isOpen st' = False \<and> searchQuery st' = []
       \<and> isInternalChange st' = isInternalChange st
       \<and> calls = []
       \<and> timeouts st' = timeouts st @ [(c, keepDigits (internalNational st))]
       \<and> (timeouts st = [] \<longrightarrow>
             (\<exists>v. runTimeout lib st' = (st'\<lparr>timeouts := []\<rparr>, [(v, iso2 c)])
                \<and> (\<forall>n. asYouTypeGetNumber lib (iso2 c) (keepDigits (internalNational st)) = Some n
                         \<and> valid n \<longrightarrow> v = formatE164 n)
                \<and> ((\<forall>n. asYouTypeGetNumber lib (iso2 c) (keepDigits (internalNational st)) = Some n
                         \<longrightarrow> \<not> valid n)
                     \<longrightarrow> v = plusSign # callingCode c @ keepDigits (internalNational st))))"
proof -
  from assms have st': "st' = st\<lparr>selectedCountry := c, isOpen := False, searchQuery := [],
             internalNational := asYouTypeInput lib (iso2 c) (keepDigits (internalNational st)),
             timeouts := timeouts st @ [(c, keepDigits (internalNational st))]\<rparr>"
    and calls: "calls = []"
    by (simp_all add: handleSelectCountry_def Let_def)
  have tick: "timeouts st = [] \<Longrightarrow>
      runTimeout lib st' = (st'\<lparr>timeouts := []\<rparr>, [deferredEmit lib (c, keepDigits (internalNational st))])"
    by (simp add: st' runTimeout_def)
  have emit: "\<exists>v. deferredEmit lib (c, keepDigits (internalNational st)) = (v, iso2 c)
        \<and> (\<forall>n. asYouTypeGetNumber lib (iso2 c) (keepDigits (internalNational st)) = Some n
                         \<and> valid n \<longrightarrow> v = formatE164 n)
        \<and> ((\<forall>n. asYouTypeGetNumber lib (iso2 c) (keepDigits (internalNational st)) = Some n
                         \<longrightarrow> \<not> valid n)
                     \<longrightarrow> v = plusSign # callingCode c @ keepDigits (internalNational st))"
    by (cases "asYouTypeGetNumber lib (iso2 c) (keepDigits (internalNational st))")
       (auto simp: deferredEmit_def bestEffort_def)
  show ?thesis
    using tick emit by (auto simp: st' calls)
qed

text \<open>
  With the stand-in library: \<open>(202) 555-0123\<close> under \<open>US\<close>, then Turkey chosen. The ten
  digits are kept, and the queued callback emits them behind \<open>+90\<close>.
\<close>

theorem handleSelectCountry_carries_digits_witness:
  "handleSelectCountry stubLib countryTR (exampleState countryUS (str ''(202) 555-0123''))
     = ((exampleState countryUS (str ''(202) 555-0123''))
          \<lparr>selectedCountry := countryTR, internalNational := str ''2025550123'',
           timeouts := [(countryTR, str ''2025550123'')]\<rparr>, [])
   \<and> keepDigits (str ''2025550123'') = keepDigits (str ''(202) 555-0123'')
   \<and> runTimeout stubLib ((exampleState countryUS (str ''(202) 555-0123''))
          \<lparr>selectedCountry := countryTR, internalNational := str ''2025550123'',
           timeouts := [(countryTR, str ''2025550123'')]\<rparr>)
     = ((exampleState countryUS (str ''(202) 555-0123''))
          \<lparr>selectedCountry := countryTR, internalNational := str ''2025550123''\<rparr>,
        [(str ''+902025550123'', str ''TR'')])"
proof -
  let ?st = "exampleState countryUS (str ''(202) 555-0123'')"
  let ?st' = "?st\<lparr>selectedCountry := countryTR, internalNational := str ''2025550123'',
           timeouts := [(countryTR, str ''2025550123'')]\<rparr>"
  let ?n = "stubNumber (Some (str ''TR'')) (str ''2025550123'')"
  have h: "handleSelectCountry stubLib countryTR ?st = (?st', [])"
    by (simp add: handleSelectCountry_def Let_def exampleState_def initialState_def stub_defs example_defs)
  have q: "timeouts ?st = []"
    by (simp add: exampleState_def initialState_def)
  have d: "keepDigits (internalNational ?st) = str ''2025550123''"
    by (simp add: exampleState_def initialState_def stub_defs example_defs)
  have g: "asYouTypeGetNumber stubLib (iso2 countryTR) (str ''2025550123'') = Some ?n"
    by (simp add: stub_defs example_defs)
  have v: "valid ?n" "formatE164 ?n = str ''+902025550123''"
    by (simp_all add: stub_defs example_defs)
  from handleSelectCountry_carries_digits[OF h] q
  obtain w where r: "runTimeout stubLib ?st' = (?st'\<lparr>timeouts := []\<rparr>, [(w, iso2 countryTR)])"
    and i: "\<forall>n. asYouTypeGetNumber stubLib (iso2 countryTR) (keepDigits (internalNational ?st)) = Some n
                         \<and> valid n \<longrightarrow> w = formatE164 n"
    by blast
  from i g v have "w = str ''+902025550123''" unfolding d by metis
  with r have r': "runTimeout stubLib ?st' = (?st'\<lparr>timeouts := []\<rparr>, [(str ''+902025550123'', str ''TR'')])"
    by (simp add: countryTR_def)
  have k: "keepDigits (str ''2025550123'') = keepDigits (str ''(202) 555-0123'')"
    by (simp add: stub_defs example_defs)
  have z: "?st'\<lparr>timeouts := []\<rparr> = ?st\<lparr>selectedCountry := countryTR, internalNational := str ''2025550123''\<rparr>"
    by (simp add: exampleState_def initialState_def)
  show ?thesis using h r' k unfolding z by simp
qed


section \<open>The search query\<close>

text \<open>
  Claim C7, as the code has it. Every country selection empties the search query and
  closes the picker. Closing the picker without a selection (the overlay or the modal's
  close request, the keyboard hiding, the flag button) changes \<open>isOpen\<close> only and leaves
  the search query as it is.
\<close>

theorem searchQuery_reset_on_selection:
  "searchQuery (fst (handleSelectCountry lib c st)) = []
   \<and> isOpen (fst (handleSelectCountry lib c st)) = False
   \<and> closeDropdown st = st\<lparr>isOpen := False\<rparr>
   \<and> searchQuery (closeDropdown st) = searchQuery st
   \<and> searchQuery (keyboardHide st) = searchQuery st
   \<and> searchQuery (toggleDropdown disabled st) = searchQuery st"
  by (simp add: handleSelectCountry_def closeDropdown_def keyboardHide_def toggleDropdown_def Let_def)

text \<open>Selecting Turkey with the query \<open>tur\<close> typed and the picker open.\<close>

theorem searchQuery_reset_on_selection_witness:
  "searchQuery (fst (handleSelectCountry stubLib countryTR
       ((initialState countryUS)\<lparr>isOpen := True, searchQuery := str ''tur''\<rparr>))) = []
   \<and> isOpen (fst (handleSelectCountry stubLib countryTR
       ((initialState countryUS)\<lparr>isOpen := True, searchQuery := str ''tur''\<rparr>))) = False"
  using searchQuery_reset_on_selection[of stubLib countryTR
       "(initialState countryUS)\<lparr>isOpen := True, searchQuery := str ''tur''\<rparr>"]
  by simp

text \<open>
  Claim C7 as it is written fails for a close: with the query \<open>tur\<close> typed and the
  picker open, \<open>closeDropdown\<close> closes the picker and the query is still there.
\<close>

theorem closeDropdown_keeps_query_counterexample:
  "isOpen (closeDropdown ((initialState countryUS)\<lparr>isOpen := True, searchQuery := str ''tur''\<rparr>)) = False
   \<and> searchQuery (closeDropdown ((initialState countryUS)\<lparr>isOpen := True, searchQuery := str ''tur''\<rparr>))
       \<noteq> []"
  by (simp add: closeDropdown_def initialState_def str_def)


section \<open>The ref methods\<close>

text \<open>
  Claim C8. For every state, \<open>isValid\<close> parses \<open>+\<close>, the calling code of the selected
  country and the shown text, with the selected country as default country. It is true
  exactly when the parse returns a number that the library reports valid: the verdict
  of a returned number is passed on, and a parse that throws or returns nothing gives
  false.
\<close>

theorem isValid_verdict:
  "(isValid lib st \<longleftrightarrow>
      (\<exists>n. parsePhoneNumber lib (plusSign # callingCode (selectedCountry st) @ internalNational st)
              (Some (iso2 (selectedCountry st))) = Parsed n \<and> valid n))
   \<and> (\<forall>n. parsePhoneNumber lib (plusSign # callingCode (selectedCountry st) @ internalNational st)
              (Some (iso2 (selectedCountry st))) = Parsed n \<longrightarrow> isValid lib st = valid n)
   \<and> (parsePhoneNumber lib (plusSign # callingCode (selectedCountry st) @ internalNational st)
              (Some (iso2 (selectedCountry st))) = Throws \<longrightarrow> \<not> isValid lib st)
   \<and> (parsePhoneNumber lib (plusSign # callingCode (selectedCountry st) @ internalNational st)
              (Some (iso2 (selectedCountry st))) = Undefined \<longrightarrow> \<not> isValid lib st)"
  by (auto simp: isValid_def Let_def split: ParseOutcome.splits)

text \<open>
  With the stand-in library: three digits under \<open>US\<close> are not valid, ten digits are,
  formatted or not; under a country the library does not know the parse throws and the
  answer is false.
\<close>

theorem isValid_verdict_witness:
  "\<not> isValid stubLib (exampleState countryUS (str ''123''))
   \<and> isValid stubLib (exampleState countryUS (str ''2025550123''))
   \<and> isValid stubLib (exampleState countryUS (str ''(202) 555-0123''))
   \<and> \<not> isValid stubLib (exampleState countryAQ (str ''2025550123''))"
proof -
  have p1: "parsePhoneNumber stubLib (plusSign # callingCode (selectedCountry (exampleState countryUS (str ''123'')))
               @ internalNational (exampleState countryUS (str ''123'')))
              (Some (iso2 (selectedCountry (exampleState countryUS (str ''123'')))))
            = Parsed (stubNumber (Some (str ''US'')) (str ''123''))"
    by (simp add: exampleState_def initialState_def stub_defs example_defs)
  have p2: "parsePhoneNumber stubLib (plusSign # callingCode (selectedCountry (exampleState countryUS (str ''2025550123'')))
               @ internalNational (exampleState countryUS (str ''2025550123'')))
              (Some (iso2 (selectedCountry (exampleState countryUS (str ''2025550123'')))))
            = Parsed (stubNumber (Some (str ''US'')) (str ''2025550123''))"
    by (simp add: exampleState_def initialState_def stub_defs example_defs)
  have p3: "parsePhoneNumber stubLib (plusSign # callingCode (selectedCountry (exampleState countryUS (str ''(202) 555-0123'')))
               @ internalNational (exampleState countryUS (str ''(202) 555-0123'')))
              (Some (iso2 (selectedCountry (exampleState countryUS (str ''(202) 555-0123'')))))
            = Parsed (stubNumber (Some (str ''US'')) (str ''2025550123''))"
    by (simp add: exampleState_def initialState_def stub_defs example_defs)
  have p4: "parsePhoneNumber stubLib (plusSign # callingCode (selectedCountry (exampleState countryAQ (str ''2025550123'')))
               @ internalNational (exampleState countryAQ (str ''2025550123'')))
              (Some (iso2 (selectedCountry (exampleState countryAQ (str ''2025550123'')))))
            = Throws"
    by (simp add: exampleState_def initialState_def stub_defs example_defs)
  have v: "\<not> valid (stubNumber (Some (str ''US'')) (str ''123''))"
          "valid (stubNumber (Some (str ''US'')) (str ''2025550123''))"
    by (simp_all add: stub_defs str_def)
  show ?thesis
    using isValid_verdict[of stubLib "exampleState countryUS (str ''123'')"]
          isValid_verdict[of stubLib "exampleState countryUS (str ''2025550123'')"]
          isValid_verdict[of stubLib "exampleState countryUS (str ''(202) 555-0123'')"]
          isValid_verdict[of stubLib "exampleState countryAQ (str ''2025550123'')"]
    unfolding p1 p2 p3 p4 using v by simp
qed

lemma find_iso2_distinct:
  "distinct (map iso2 fl) \<Longrightarrow> c \<in> set fl \<Longrightarrow> List.find (\<lambda>x. iso2 x = iso2 c) fl = Some c"
  by (induction fl) force+

text \<open>
  Claim C9. \<open>setCountry\<close> looks the code up in the filtered list it is given. A code that
  no entry has changes nothing and calls nothing. A code that an entry has gives exactly
  what \<open>handleSelectCountry\<close> gives for the first such entry, the queued emission included;
  in a list without duplicate codes that is the entry with the code.
\<close>

theorem setCountry_lookup:
  "(code \<notin> iso2 ` set fl \<longrightarrow> setCountry lib fl code st = (st, []))
   \<and> (\<forall>c. List.find (\<lambda>x. iso2 x = code) fl = Some c
          \<longrightarrow> setCountry lib fl code st = handleSelectCountry lib c st)
   \<and> (\<forall>c. distinct (map iso2 fl) \<and> c \<in> set fl \<and> iso2 c = code
          \<longrightarrow> setCountry lib fl code st = handleSelectCountry lib c st)"
proof (intro conjI allI impI)
  assume "code \<notin> iso2 ` set fl"
  then have "List.find (\<lambda>x. iso2 x = code) fl = None"
    by (auto simp: find_None_iff)
  then show "setCountry lib fl code st = (st, [])"
    by (simp add: setCountry_def)
next
  fix c assume "List.find (\<lambda>x. iso2 x = code) fl = Some c"
  then show "setCountry lib fl code st = handleSelectCountry lib c st"
    by (simp add: setCountry_def)
next
  fix c assume "distinct (map iso2 fl) \<and> c \<in> set fl \<and> iso2 c = code"
  then have "List.find (\<lambda>x. iso2 x = code) fl = Some c"
    using find_iso2_distinct[of fl c] by auto
  then show "setCountry lib fl code st = handleSelectCountry lib c st"
    by (simp add: setCountry_def)
qed

text \<open>At the example directory: \<open>FR\<close> is not there, \<open>TR\<close> is.\<close>

theorem setCountry_lookup_witness:
  "str ''FR'' \<notin> iso2 ` set exampleDirectory
   \<and> setCountry stubLib exampleDirectory (str ''FR'') (exampleState countryUS (str ''202''))
       = (exampleState countryUS (str ''202''), [])
   \<and> distinct (map iso2 exampleDirectory) \<and> countryTR \<in> set exampleDirectory
   \<and> setCountry stubLib exampleDirectory (str ''TR'') (exampleState countryUS (str ''202''))
       = handleSelectCountry stubLib countryTR (exampleState countryUS (str ''202''))"
proof -
  have a: "str ''FR'' \<notin> iso2 ` set exampleDirectory"
    by (simp add: example_defs)
  have b: "distinct (map iso2 exampleDirectory)" "countryTR \<in> set exampleDirectory"
          "iso2 countryTR = str ''TR''"
    by (simp_all add: example_defs)
  show ?thesis
    using a b
      setCountry_lookup[of "str ''FR''" exampleDirectory stubLib "exampleState countryUS (str ''202'')"]
      setCountry_lookup[of "str ''TR''" exampleDirectory stubLib "exampleState countryUS (str ''202'')"]
    by blast
qed


section \<open>Reconciliation with the value prop\<close>

text \<open>
  Claim C4, as the code has it. With the guard unset, \<open>P1\<close> the parse of the value with
  the selected country as default and \<open>P2\<close> the parse without a country:
  an empty value empties the shown text and changes nothing else;
  when \<open>P1\<close> throws, the value is shown as it is and nothing else changes;
  when \<open>P1\<close> returns a valid number, the state is reconciled with it and \<open>P2\<close> is not asked;
  when \<open>P1\<close> returns nothing or an invalid number, the state is reconciled with what
  \<open>P2\<close> returns, or with what \<open>P1\<close> returned when \<open>P2\<close> throws;
  when \<open>P1\<close> returns nothing and \<open>P2\<close> throws or returns nothing, the value is shown as it is.
  Reconciling with a number that has a country switches the selection to the first entry
  of the filtered list with that country, if the country differs from the selection and
  the list has one, and shows the national format of the formatter's number, or the value
  when the formatter has none; reconciling with nothing, or with a number that has no
  country, shows the value as it is. No case fails.
\<close>

theorem syncPropValue_reconciles:
  assumes "\<not> isInternalChange st"
    and "P1 = parsePhoneNumber lib v (Some (iso2 (selectedCountry st)))"
    and "P2 = parsePhoneNumber lib v None"
  shows "(v = [] \<longrightarrow> syncPropValue lib fl v st = st\<lparr>internalNational := []\<rparr>)
       \<and> (v \<noteq> [] \<and> P1 = Throws \<longrightarrow> syncPropValue lib fl v st = st\<lparr>internalNational := v\<rparr>)
       \<and> (\<forall>n. v \<noteq> [] \<and> P1 = Parsed n \<and> valid n
              \<longrightarrow> syncPropValue lib fl v st = reconcileWith lib fl v (Some n) st)
       \<and> (v \<noteq> [] \<and> (P1 = Undefined \<or> (\<exists>n. P1 = Parsed n \<and> \<not> valid n))
              \<longrightarrow> syncPropValue lib fl v st =
                    reconcileWith lib fl v
                      (case P2 of Throws \<Rightarrow> returned P1 | Undefined \<Rightarrow> None | Parsed m \<Rightarrow> Some m) st)
       \<and> (v \<noteq> [] \<and> P1 = Undefined \<and> (P2 = Throws \<or> P2 = Undefined)
              \<longrightarrow> syncPropValue lib fl v st = st\<lparr>internalNational := v\<rparr>)
       \<and> (\<forall>n pc. truthyCountry (Some n) = Some pc \<longrightarrow>
              internalNational (reconcileWith lib fl v (Some n) st) = nationalDisplay lib pc v
            \<and> selectedCountry (reconcileWith lib fl v (Some n) st) =
                (if pc = iso2 (selectedCountry st) then selectedCountry st
                 else case List.find (\<lambda>c. iso2 c = pc) fl of
                        None \<Rightarrow> selectedCountry st
                      | Some c \<Rightarrow> c))
       \<and> (\<forall>r. truthyCountry r = None \<longrightarrow>
              reconcileWith lib fl v r st = st\<lparr>internalNational := v\<rparr>)"
proof -
  have rec: "\<And>n pc. truthyCountry (Some n) = Some pc \<Longrightarrow>
              internalNational (reconcileWith lib fl v (Some n) st) = nationalDisplay lib pc v
            \<and> selectedCountry (reconcileWith lib fl v (Some n) st) =
                (if pc = iso2 (selectedCountry st) then selectedCountry st
                 else case List.find (\<lambda>c. iso2 c = pc) fl of
                        None \<Rightarrow> selectedCountry st
                      | Some c \<Rightarrow> c)"
    by (simp add: reconcileWith_def switchCountry_def split: option.splits)
  have raw: "\<And>r. truthyCountry r = None \<Longrightarrow>
              reconcileWith lib fl v r st = st\<lparr>internalNational := v\<rparr>"
    by (simp add: reconcileWith_def)
  have unfold: "syncPropValue lib fl v st =
      (if v = [] then st\<lparr>internalNational := []\<rparr>
       else case P1 of
              Throws \<Rightarrow> st\<lparr>internalNational := v\<rparr>
            | Undefined \<Rightarrow>
                reconcileWith lib fl v
                  (case P2 of Throws \<Rightarrow> None | Undefined \<Rightarrow> None | Parsed m \<Rightarrow> Some m) st
            | Parsed n \<Rightarrow>
                if valid n then reconcileWith lib fl v (Some n) st
                else reconcileWith lib fl v
                  (case P2 of Throws \<Rightarrow> Some n | Undefined \<Rightarrow> None | Parsed m \<Rightarrow> Some m) st)"
    using assms(1)
    by (simp add: syncPropValue_def reconcileWith_def switchCountry_def nationalDisplay_def
          returned_def Let_def assms(2)[symmetric] assms(3)[symmetric]
        split: ParseOutcome.splits option.splits)
  have cases: "(v = [] \<longrightarrow> syncPropValue lib fl v st = st\<lparr>internalNational := []\<rparr>)
       \<and> (v \<noteq> [] \<and> P1 = Throws \<longrightarrow> syncPropValue lib fl v st = st\<lparr>internalNational := v\<rparr>)
       \<and> (\<forall>n. v \<noteq> [] \<and> P1 = Parsed n \<and> valid n
              \<longrightarrow> syncPropValue lib fl v st = reconcileWith lib fl v (Some n) st)
       \<and> (v \<noteq> [] \<and> (P1 = Undefined \<or> (\<exists>n. P1 = Parsed n \<and> \<not> valid n))
              \<longrightarrow> syncPropValue lib fl v st =
                    reconcileWith lib fl v
                      (case P2 of Throws \<Rightarrow> returned P1 | Undefined \<Rightarrow> None | Parsed m \<Rightarrow> Some m) st)
       \<and> (v \<noteq> [] \<and> P1 = Undefined \<and> (P2 = Throws \<or> P2 = Undefined)
              \<longrightarrow> syncPropValue lib fl v st = st\<lparr>internalNational := v\<rparr>)"
    unfolding unfold
    by (auto simp: returned_def reconcileWith_def truthyCountry_def split: ParseOutcome.splits)
  show ?thesis
    using cases rec raw by blast
qed

text \<open>
  With the stand-in library and Turkey selected: the value \<open>+12025550123\<close> selects the
  United States and shows \<open>(202) 555-0123\<close>; the empty value empties the field.
\<close>

theorem syncPropValue_reconciles_witness:
  "\<not> isInternalChange (exampleState countryTR [])
   \<and> syncPropValue stubLib exampleDirectory (str ''+12025550123'') (exampleState countryTR [])
       = (exampleState countryTR [])\<lparr>selectedCountry := countryUS,
                                     internalNational := str ''(202) 555-0123''\<rparr>
   \<and> syncPropValue stubLib exampleDirectory [] (exampleState countryTR (str ''555''))
       = exampleState countryTR []"
proof -
  let ?v = "str ''+12025550123''"
  let ?n = "stubNumber (Some (str ''US'')) (str ''2025550123'')"
  have g: "\<not> isInternalChange (exampleState countryTR [])"
          "\<not> isInternalChange (exampleState countryTR (str ''555''))"
    by (simp_all add: exampleState_def initialState_def)
  have p: "parsePhoneNumber stubLib ?v (Some (iso2 (selectedCountry (exampleState countryTR [])))) = Parsed ?n"
    by (simp add: exampleState_def initialState_def stub_defs example_defs)
  have v: "valid ?n" "?v \<noteq> []"
    by (simp_all add: stub_defs str_def)
  have r: "reconcileWith stubLib exampleDirectory ?v (Some ?n) (exampleState countryTR [])
       = (exampleState countryTR [])\<lparr>selectedCountry := countryUS,
                                     internalNational := str ''(202) 555-0123''\<rparr>"
    by (simp add: reconcileWith_def truthyCountry_def switchCountry_def nationalDisplay_def
        exampleState_def initialState_def stub_defs example_defs)
  have e: "(exampleState countryTR (str ''555''))\<lparr>internalNational := []\<rparr> = exampleState countryTR []"
    by (simp add: exampleState_def)
  from syncPropValue_reconciles[OF g(1) refl refl, where lib = stubLib and v = ?v and fl = exampleDirectory] p v
  have a: "syncPropValue stubLib exampleDirectory ?v (exampleState countryTR [])
       = reconcileWith stubLib exampleDirectory ?v (Some ?n) (exampleState countryTR [])"
    by blast
  from syncPropValue_reconciles[OF g(2) refl refl, where lib = stubLib and v = "[]" and fl = exampleDirectory]
  have b: "syncPropValue stubLib exampleDirectory [] (exampleState countryTR (str ''555''))
       = (exampleState countryTR (str ''555''))\<lparr>internalNational := []\<rparr>"
    by blast
  show ?thesis using g a b unfolding r e by simp
qed

text \<open>
  Claim C4 as it is written fails in two places. With a selected country that the library
  does not know, the first parse of \<open>+12025550123\<close> throws; the parse without a country
  would return a valid \<open>US\<close> number and the list has \<open>US\<close>, yet the selection stays and
  the value is shown as it is. And the first parse of \<open>+80012345678\<close> returns a valid
  number with no country: the formatter would give \<open>12345678\<close>, and the value is shown
  as it is.
\<close>

theorem syncPropValue_scoped_throw_counterexample:
  "parsePhoneNumber stubLib (str ''+12025550123'') (Some (iso2 countryAQ)) = Throws
   \<and> parsePhoneNumber stubLib (str ''+12025550123'') None
       = Parsed (stubNumber (Some (iso2 countryUS)) (str ''2025550123''))
   \<and> valid (stubNumber (Some (iso2 countryUS)) (str ''2025550123''))
   \<and> List.find (\<lambda>c. iso2 c = iso2 countryUS) exampleDirectory = Some countryUS
   \<and> syncPropValue stubLib exampleDirectory (str ''+12025550123'') (exampleState countryAQ [])
       = exampleState countryAQ (str ''+12025550123'')
   \<and> parsePhoneNumber stubLib (str ''+80012345678'') (Some (iso2 countryUS))
       = Parsed (stubNumber None (str ''12345678''))
   \<and> valid (stubNumber None (str ''12345678''))
   \<and> nationalDisplay stubLib (iso2 countryUS) (str ''+80012345678'') = str ''12345678''
   \<and> syncPropValue stubLib exampleDirectory (str ''+80012345678'') (exampleState countryUS [])
       = exampleState countryUS (str ''+80012345678'')"
  by (simp add: syncPropValue_def returned_def truthyCountry_def nationalDisplay_def Let_def
      exampleState_def initialState_def stub_defs example_defs)


section \<open>The reentrancy guard\<close>

text \<open>
  The emission of a keystroke sets the guard, and the next run of the effect consumes it:
  it clears the guard and changes nothing else. After any run of the effect the guard is clear.
\<close>
lemma emitChange_sets_guard: "isInternalChange (fst (emitChange lib t c st))"
  by (simp add: emitChange_def Let_def split: option.splits)

lemma handleTextChange_sets_guard:
  "strictCharCheck t \<Longrightarrow> isInternalChange (fst (handleTextChange lib t st))"
  by (simp add: handleTextChange_def emitChange_sets_guard Let_def)

lemma syncPropValue_consumes_guard:
  "isInternalChange st \<Longrightarrow> syncPropValue lib fl v st = st\<lparr>isInternalChange := False\<rparr>"
  by (simp add: syncPropValue_def)

lemma syncPropValue_guard_clear:
  "\<not> isInternalChange (syncPropValue lib fl v st)"
  by (simp add: syncPropValue_def returned_def Let_def split: ParseOutcome.splits option.splits)

text \<open>
  Claim C1 at the emission after a country selection. The queued callback calls
  \<open>onChange\<close> and leaves the guard as it found it, for every library, country and state.
  From the initial state under \<open>US\<close> with Turkey chosen and the stand-in library: the
  callback emits \<open>+90\<close> with the guard unset, so the update of the value that echoes the
  emission is reconciled instead of skipped and the field shows \<open>+90\<close>; the next
  keystroke, \<open>+905\<close>, is then dropped by the filter.
\<close>

theorem deferred_emission_leaves_guard_unset:
  "isInternalChange (fst (runTimeout lib (fst (handleSelectCountry lib c st)))) = isInternalChange st
   \<and> snd (runTimeout stubLib (fst (handleSelectCountry stubLib countryTR (initialState countryUS))))
       = [(str ''+90'', str ''TR'')]
   \<and> isInternalChange
        (fst (runTimeout stubLib (fst (handleSelectCountry stubLib countryTR (initialState countryUS)))))
       = False
   \<and> syncPropValue stubLib exampleDirectory (str ''+90'')
        (fst (runTimeout stubLib (fst (handleSelectCountry stubLib countryTR (initialState countryUS)))))
       = exampleState countryTR (str ''+90'')
   \<and> handleTextChange stubLib (str ''+905'') (exampleState countryTR (str ''+90''))
       = (exampleState countryTR (str ''+90''), [])"
proof (intro conjI)
  show "isInternalChange (fst (runTimeout lib (fst (handleSelectCountry lib c st)))) = isInternalChange st"
    by (simp add: runTimeout_def handleSelectCountry_def Let_def split: list.splits)
next
  have h: "fst (handleSelectCountry stubLib countryTR (initialState countryUS))
      = (initialState countryTR)\<lparr>timeouts := [(countryTR, [])]\<rparr>"
    by (simp add: handleSelectCountry_def Let_def initialState_def stub_defs example_defs)
  have r: "runTimeout stubLib ((initialState countryTR)\<lparr>timeouts := [(countryTR, [])]\<rparr>)
      = (initialState countryTR, [(str ''+90'', str ''TR'')])"
    by (simp add: runTimeout_def deferredEmit_def bestEffort_def initialState_def stub_defs example_defs)
  show "snd (runTimeout stubLib (fst (handleSelectCountry stubLib countryTR (initialState countryUS))))
       = [(str ''+90'', str ''TR'')]"
    unfolding h r by simp
  show "isInternalChange
        (fst (runTimeout stubLib (fst (handleSelectCountry stubLib countryTR (initialState countryUS)))))
       = False"
    unfolding h r by (simp add: initialState_def)
  show "syncPropValue stubLib exampleDirectory (str ''+90'')
        (fst (runTimeout stubLib (fst (handleSelectCountry stubLib countryTR (initialState countryUS)))))
       = exampleState countryTR (str ''+90'')"
    unfolding h r
    by (simp add: syncPropValue_def exampleState_def initialState_def stub_defs example_defs)
  show "handleTextChange stubLib (str ''+905'') (exampleState countryTR (str ''+90''))
       = (exampleState countryTR (str ''+90''), [])"
    by (simp add: handleTextChange_def strictCharCheck_def strictChar_def isDigit_def isWhiteSpace_def str_def)
qed

end
